theory Spec2Isabelle
  imports Main
begin

section \<open>Data model\<close>

text \<open>
  The backend's \<open>AuthService\<close> (magic links, sessions) and \<open>UsersService\<close> (user rows),
  over the tables they read and write. The specification's names map to the code's:
  tenant is company, principal is user, \<open>TENANT_ADMIN\<close> is \<open>ADMIN_RH\<close>, \<open>MEMBER\<close> is
  \<open>COLLABORATEUR\<close>; \<open>request\<close> is \<open>generateMagicLink\<close>, \<open>redeem\<close> is
  \<open>validateMagicLinkAndCreateSession\<close>, \<open>validate\<close> is \<open>validateSession\<close>, \<open>revoke\<close> is
  \<open>revokeSession\<close>; \<open>TokenExpired\<close> is \<open>EXPIRED_TOKEN\<close>, \<open>InvalidRoleAssignment\<close> is
  \<open>TEAM_ID_REQUIRED\<close> or \<open>TEAM_ID_NOT_ALLOWED\<close>, and so on for the other errors.

  The persisted tables of the two migrations (companies, users, magic_links,
  auth_sessions) are lists of rows, in insertion order. Timestamps are milliseconds
  since the epoch, as \<open>Date.now()\<close> gives them. A nullable column is an \<open>option\<close>.
\<close>

datatype Role = ADMIN_RH | MANAGER | COLLABORATEUR

record Company =
  c_id :: string
  c_name :: string
  c_domain :: string
  c_createdAt :: int

record User =
  u_id :: string
  u_companyId :: string
  u_email :: string
  u_role :: Role
  u_teamId :: "string option"
  u_createdAt :: int

record MagicLink =
  ml_id :: string
  ml_userId :: string
  ml_tokenHash :: string
  ml_usedAt :: "int option"
  ml_expiresAt :: int
  ml_createdAt :: int

record AuthSession =
  as_id :: string
  as_userId :: string
  as_tokenHash :: string
  as_expiresAt :: int
  as_createdAt :: int

record Store =
  companies :: "Company list"
  users :: "User list"
  magicLinks :: "MagicLink list"
  authSessions :: "AuthSession list"

text \<open>The error codes thrown by the two services (the first argument of \<open>ApiError\<close>).\<close>

datatype ApiError =
    USER_NOT_FOUND
  | MAGIC_LINK_GENERATION_FAILED
  | INVALID_TOKEN
  | EXPIRED_TOKEN
  | TOKEN_ALREADY_USED
  | MAGIC_LINK_VALIDATION_FAILED
  | INVALID_SESSION
  | EXPIRED_SESSION
  | SESSION_VALIDATION_FAILED
  | INVALID_REFRESH_TOKEN
  | EXPIRED_REFRESH_TOKEN
  | TOKEN_REFRESH_FAILED
  | COMPANY_NOT_FOUND
  | TEAM_ID_REQUIRED
  | TEAM_ID_NOT_ALLOWED
  | USER_CREATION_FAILED
  | USER_UPDATE_FAILED
  | UNAUTHORIZED

text \<open>The HTTP status the code attaches to each error.\<close>

fun statusCode :: "ApiError \<Rightarrow> nat" where
  "statusCode USER_NOT_FOUND = 404"
| "statusCode COMPANY_NOT_FOUND = 404"
| "statusCode INVALID_TOKEN = 401"
| "statusCode EXPIRED_TOKEN = 401"
| "statusCode TOKEN_ALREADY_USED = 401"
| "statusCode INVALID_SESSION = 401"
| "statusCode EXPIRED_SESSION = 401"
| "statusCode INVALID_REFRESH_TOKEN = 401"
| "statusCode EXPIRED_REFRESH_TOKEN = 401"
| "statusCode TEAM_ID_REQUIRED = 400"
| "statusCode TEAM_ID_NOT_ALLOWED = 400"
| "statusCode UNAUTHORIZED = 403"
| "statusCode _ = 500"

text \<open>
  The value of \<open>validateSession\<close> (type \<open>UserSession\<close>), the payload signed into the
  access token (\<open>JwtPayload\<close>), and the values of the magic-link operations.
\<close>

record UserSession =
  us_id :: string
  us_role :: Role
  us_companyId :: string
  us_teamId :: "string option"

record JwtPayload =
  jwt_userId :: string
  jwt_role :: Role
  jwt_companyId :: string
  jwt_teamId :: "string option"

record UserSummary =
  sum_id :: string
  sum_email :: string
  sum_role :: Role

record MagicLinkIssued =
  magicLinkId :: string
  token :: string
  expiresAt :: int

record SessionCreated =
  sc_user :: UserSummary
  accessToken :: JwtPayload
  refreshToken :: string
  refreshExpiresAt :: int

record TokenRefreshed =
  tr_user :: UserSummary
  tr_accessToken :: JwtPayload

section \<open>The store's operations\<close>

text \<open>
  JavaScript truthiness of a \<open>string | null | undefined\<close>: the empty string is falsy too.
\<close>

definition truthy :: "string option \<Rightarrow> bool" where
  "truthy v = (case v of None \<Rightarrow> False | Some t \<Rightarrow> t \<noteq> [])"

text \<open>
  \<open>create\<close> on a table appends the row unless the primary key or a unique index of the
  migration (\<open>token_hash\<close>, \<open>email\<close>) rejects it; \<open>None\<close> is the constraint violation
  the client library throws.
\<close>

definition magicLink_create :: "MagicLink \<Rightarrow> MagicLink list \<Rightarrow> MagicLink list option" where
  "magicLink_create row rows =
     (if list_ex (\<lambda>l. ml_id l = ml_id row \<or> ml_tokenHash l = ml_tokenHash row) rows
      then None else Some (rows @ [row]))"

definition authSession_create :: "AuthSession \<Rightarrow> AuthSession list \<Rightarrow> AuthSession list option" where
  "authSession_create row rows =
     (if list_ex (\<lambda>a. as_id a = as_id row \<or> as_tokenHash a = as_tokenHash row) rows
      then None else Some (rows @ [row]))"


definition deleteMany :: "('a \<Rightarrow> bool) \<Rightarrow> 'a list \<Rightarrow> 'a list" where
  "deleteMany P rows = filter (\<lambda>r. \<not> P r) rows"

definition summary :: "User \<Rightarrow> UserSummary" where
  "summary u = \<lparr>sum_id = u_id u, sum_email = u_email u, sum_role = u_role u\<rparr>"

text \<open>
  \<open>JwtUtils.generateAccessToken\<close> signs its payload with an external library; the token
  is modelled by the payload it carries. \<open>teamId || undefined\<close> drops a falsy team id.
\<close>

definition generateAccessToken :: "User \<Rightarrow> JwtPayload" where
  "generateAccessToken u =
     \<lparr>jwt_userId = u_id u, jwt_role = u_role u, jwt_companyId = u_companyId u,
      jwt_teamId = (if truthy (u_teamId u) then u_teamId u else None)\<rparr>"

section \<open>AuthService\<close>

text \<open>
  Every operation takes the store and returns its result together with the store it
  leaves, since a failing call may have written already. What the code draws from its
  environment is a parameter: \<open>sha256hex\<close> is \<open>createHash('sha256')...digest('hex')\<close>,
  \<open>now\<close> the clock of the call (its readings within one call are taken as one instant),
  \<open>tok\<close> the value of \<open>randomBytes(32).toString('hex')\<close> and \<open>newId\<close> the generated
  primary key of the row the call creates. A failure of the database itself is not
  modelled; a violated constraint is.
\<close>

definition generateMagicLink ::
  "(string \<Rightarrow> string) \<Rightarrow> string \<Rightarrow> string \<Rightarrow> int \<Rightarrow> string \<Rightarrow> Store
     \<Rightarrow> (ApiError + MagicLinkIssued) \<times> Store" where
  "generateMagicLink sha256hex tok newId now email s =
     (case find (\<lambda>u. u_email u = email) (users s) of
        None \<Rightarrow> (Inl USER_NOT_FOUND, s)
      | Some user \<Rightarrow>
          let tokenHash = sha256hex tok;
              expires = now + 24 * 60 * 60 * 1000;
              s1 = s\<lparr>magicLinks :=
                      deleteMany (\<lambda>l. ml_userId l = u_id user \<and> ml_usedAt l = None) (magicLinks s)\<rparr>
          in (case magicLink_create
                     \<lparr>ml_id = newId, ml_userId = u_id user, ml_tokenHash = tokenHash,
                      ml_usedAt = None, ml_expiresAt = expires, ml_createdAt = now\<rparr>
                     (magicLinks s1) of
                None \<Rightarrow> (Inl MAGIC_LINK_GENERATION_FAILED, s1)
              | Some rows \<Rightarrow>
                  (Inr \<lparr>magicLinkId = newId, token = tok, expiresAt = expires\<rparr>,
                   s1\<lparr>magicLinks := rows\<rparr>)))"

text \<open>
  The lookups with \<open>include: { user: ... }\<close> carry the row the foreign key points to.
  In a store that lacks it, the first use of \<open>magicLink.user\<close> or \<open>session.user\<close>
  throws, and the \<open>catch\<close> turns that into the operation's generic error.
\<close>

definition validateMagicLinkAndCreateSession ::
  "(string \<Rightarrow> string) \<Rightarrow> string \<Rightarrow> string \<Rightarrow> int \<Rightarrow> string \<Rightarrow> Store
     \<Rightarrow> (ApiError + SessionCreated) \<times> Store" where
  "validateMagicLinkAndCreateSession sha256hex tok newId now magicToken s =
     (case find (\<lambda>l. ml_tokenHash l = sha256hex magicToken) (magicLinks s) of
        None \<Rightarrow> (Inl INVALID_TOKEN, s)
      | Some magicLink \<Rightarrow>
          if ml_expiresAt magicLink < now then (Inl EXPIRED_TOKEN, s)
          else if ml_usedAt magicLink \<noteq> None then (Inl TOKEN_ALREADY_USED, s)
          else
            let s1 = s\<lparr>magicLinks :=
                        map (\<lambda>l. if ml_id l = ml_id magicLink then l\<lparr>ml_usedAt := Some now\<rparr> else l)
                            (magicLinks s)\<rparr>;
                refreshExpires = now + 30 * 24 * 60 * 60 * 1000
            in (case find (\<lambda>u. u_id u = ml_userId magicLink) (users s) of
                  None \<Rightarrow> (Inl MAGIC_LINK_VALIDATION_FAILED, s1)
                | Some user \<Rightarrow>
                    (case authSession_create
                            \<lparr>as_id = newId, as_userId = u_id user, as_tokenHash = sha256hex tok,
                             as_expiresAt = refreshExpires, as_createdAt = now\<rparr>
                            (authSessions s1) of
                       None \<Rightarrow> (Inl MAGIC_LINK_VALIDATION_FAILED, s1)
                     | Some rows \<Rightarrow>
                         (Inr \<lparr>sc_user = summary user, accessToken = generateAccessToken user,
                               refreshToken = tok, refreshExpiresAt = refreshExpires\<rparr>,
                          s1\<lparr>authSessions := rows\<rparr>))))"

definition validateSession ::
  "(string \<Rightarrow> string) \<Rightarrow> int \<Rightarrow> string \<Rightarrow> Store \<Rightarrow> (ApiError + UserSession) \<times> Store" where
  "validateSession sha256hex now sessionToken s =
     (case find (\<lambda>a. as_tokenHash a = sha256hex sessionToken) (authSessions s) of
        None \<Rightarrow> (Inl INVALID_SESSION, s)
      | Some session \<Rightarrow>
          if as_expiresAt session < now
          then (Inl EXPIRED_SESSION,
                s\<lparr>authSessions := deleteMany (\<lambda>a. as_id a = as_id session) (authSessions s)\<rparr>)
          else (case find (\<lambda>u. u_id u = as_userId session) (users s) of
                  None \<Rightarrow> (Inl SESSION_VALIDATION_FAILED, s)
                | Some user \<Rightarrow>
                    (Inr \<lparr>us_id = u_id user, us_role = u_role user,
                          us_companyId = u_companyId user, us_teamId = u_teamId user\<rparr>, s)))"

definition revokeSession :: "(string \<Rightarrow> string) \<Rightarrow> string \<Rightarrow> Store \<Rightarrow> (ApiError + unit) \<times> Store" where
  "revokeSession sha256hex sessionToken s =
     (Inr (), s\<lparr>authSessions :=
                  deleteMany (\<lambda>a. as_tokenHash a = sha256hex sessionToken) (authSessions s)\<rparr>)"

definition revokeAllUserSessions :: "string \<Rightarrow> Store \<Rightarrow> (ApiError + unit) \<times> Store" where
  "revokeAllUserSessions userId s =
     (Inr (), s\<lparr>authSessions := deleteMany (\<lambda>a. as_userId a = userId) (authSessions s)\<rparr>)"

definition refreshAccessToken ::
  "(string \<Rightarrow> string) \<Rightarrow> int \<Rightarrow> string \<Rightarrow> Store \<Rightarrow> (ApiError + TokenRefreshed) \<times> Store" where
  "refreshAccessToken sha256hex now tok s =
     (case find (\<lambda>a. as_tokenHash a = sha256hex tok) (authSessions s) of
        None \<Rightarrow> (Inl INVALID_REFRESH_TOKEN, s)
      | Some session \<Rightarrow>
          if as_expiresAt session < now
          then (Inl EXPIRED_REFRESH_TOKEN,
                s\<lparr>authSessions := deleteMany (\<lambda>a. as_id a = as_id session) (authSessions s)\<rparr>)
          else (case find (\<lambda>u. u_id u = as_userId session) (users s) of
                  None \<Rightarrow> (Inl TOKEN_REFRESH_FAILED, s)
                | Some user \<Rightarrow>
                    (Inr \<lparr>tr_user = summary user, tr_accessToken = generateAccessToken user\<rparr>, s)))"

definition cleanupExpiredTokens :: "int \<Rightarrow> Store \<Rightarrow> (ApiError + nat \<times> nat) \<times> Store" where
  "cleanupExpiredTokens now s =
     (let deadLinks = (\<lambda>l. ml_expiresAt l < now \<or> ml_usedAt l \<noteq> None);
          deadSessions = (\<lambda>a. as_expiresAt a < now)
      in (Inr (length (filter deadLinks (magicLinks s)),
               length (filter deadSessions (authSessions s))),
          s\<lparr>magicLinks := deleteMany deadLinks (magicLinks s),
            authSessions := deleteMany deadSessions (authSessions s)\<rparr>))"

section \<open>UsersService\<close>

text \<open>
  The \<open>where\<close> object the service builds field by field: an absent field does not
  filter. \<open>w_teamId = Some None\<close> is the filter \<open>teamId: null\<close>.
\<close>

record UserWhere =
  w_id :: "string option"
  w_email :: "string option"
  w_emailContains :: "string option"
  w_companyId :: "string option"
  w_teamId :: "string option option"
  w_role :: "Role option"

definition emptyWhere :: UserWhere where
  "emptyWhere = \<lparr>w_id = None, w_email = None, w_emailContains = None,
                  w_companyId = None, w_teamId = None, w_role = None\<rparr>"

definition toLower :: "char \<Rightarrow> char" where
  "toLower c = (let n = (of_char c :: nat) in if 65 \<le> n \<and> n \<le> 90 then char_of (n + 32) else c)"

text \<open>
  The filter \<open>{ contains: search, mode: 'insensitive' }\<close> reaches the database as
  \<open>email ILIKE '%search%'\<close> with the search string put into the pattern as it is: a
  \<open>%\<close> in it matches any run of characters, a \<open>_\<close> any one character, and a backslash
  takes the character after it literally. \<open>likeMatch\<close> is that pattern match, and the
  case of ASCII letters is folded on both sides (the emails the create schema lets in
  are ASCII).
\<close>

fun likeMatch :: "string \<Rightarrow> string \<Rightarrow> bool" where
  "likeMatch [] t = (t = [])"
| "likeMatch (p # ps) [] = (p = CHR ''%'' \<and> likeMatch ps [])"
| "likeMatch (p # ps) (c # cs) =
     (if p = CHR ''%'' then likeMatch ps (c # cs) \<or> likeMatch (p # ps) cs
      else if p = CHR ''_'' then likeMatch ps cs
      else if p = CHR 0x5C
        then (case ps of [] \<Rightarrow> False | q # qs \<Rightarrow> c = q \<and> likeMatch qs cs)
      else c = p \<and> likeMatch ps cs)"

definition containsInsensitive :: "string \<Rightarrow> string \<Rightarrow> bool" where
  "containsInsensitive needle hay =
     likeMatch (map toLower (CHR ''%'' # needle @ [CHR ''%''])) (map toLower hay)"

definition userMatches :: "UserWhere \<Rightarrow> User \<Rightarrow> bool" where
  "userMatches w u =
     ((case w_id w of None \<Rightarrow> True | Some i \<Rightarrow> u_id u = i) \<and>
      (case w_email w of None \<Rightarrow> True | Some e \<Rightarrow> u_email u = e) \<and>
      (case w_emailContains w of None \<Rightarrow> True | Some n \<Rightarrow> containsInsensitive n (u_email u)) \<and>
      (case w_companyId w of None \<Rightarrow> True | Some c \<Rightarrow> u_companyId u = c) \<and>
      (case w_teamId w of None \<Rightarrow> True | Some t \<Rightarrow> u_teamId u = t) \<and>
      (case w_role w of None \<Rightarrow> True | Some r \<Rightarrow> u_role u = r))"

text \<open>\<open>include: { company: true }\<close> joins the row of the user's company.\<close>

record UserWithCompany =
  uwc_user :: User
  uwc_company :: "Company option"

definition includeCompany :: "Store \<Rightarrow> User \<Rightarrow> UserWithCompany" where
  "includeCompany s u =
     \<lparr>uwc_user = u, uwc_company = find (\<lambda>c. c_id c = u_companyId u) (companies s)\<rparr>"


text \<open>
  In \<open>UpdateUserInput\<close> every field may be absent (\<open>None\<close>); \<open>teamId\<close> may also be
  present and \<open>null\<close> (\<open>Some None\<close>).
\<close>

record UpdateUserInput =
  uu_email :: "string option"
  uu_role :: "Role option"
  uu_teamId :: "string option option"

text \<open>
  The validated list query: the schema admits \<open>page \<ge> 1\<close> and \<open>1 \<le> limit \<le> 100\<close>
  only, which is the range \<open>q_page\<close> and \<open>q_limit\<close> are meant for.
\<close>

record ListUsersQuery =
  q_page :: nat
  q_limit :: nat
  q_role :: "Role option"
  q_companyId :: "string option"
  q_search :: "string option"

record PaginatedResponse =
  data :: "UserWithCompany list"
  pg_page :: nat
  pg_limit :: nat
  pg_total :: nat
  pg_totalPages :: nat


text \<open>The reads leave the store as it is and throw nothing of their own.\<close>

definition getUserById :: "string \<Rightarrow> UserSession \<Rightarrow> Store \<Rightarrow> UserWithCompany option" where
  "getUserById userId requestingUser s =
     (let w0 = emptyWhere\<lparr>w_id := Some userId, w_companyId := Some (us_companyId requestingUser)\<rparr>;
          w = (if us_role requestingUser = MANAGER
                 then w0\<lparr>w_teamId := Some (us_teamId requestingUser)\<rparr>
               else if us_role requestingUser = COLLABORATEUR
                 then w0\<lparr>w_id := Some (us_id requestingUser)\<rparr>
               else w0)
      in map_option (includeCompany s) (find (userMatches w) (users s)))"

definition getUserByEmail :: "string \<Rightarrow> UserSession \<Rightarrow> Store \<Rightarrow> UserWithCompany option" where
  "getUserByEmail email requestingUser s =
     (let w0 = emptyWhere\<lparr>w_email := Some email, w_companyId := Some (us_companyId requestingUser)\<rparr>;
          w = (if us_role requestingUser = MANAGER
                 then w0\<lparr>w_teamId := Some (us_teamId requestingUser)\<rparr>
               else if us_role requestingUser = COLLABORATEUR
                 then w0\<lparr>w_id := Some (us_id requestingUser)\<rparr>
               else w0)
      in map_option (includeCompany s) (find (userMatches w) (users s)))"

definition listUsers :: "ListUsersQuery \<Rightarrow> UserSession option \<Rightarrow> Store \<Rightarrow> PaginatedResponse" where
  "listUsers query requestingUser s =
     (let skip = (q_page query - 1) * q_limit query;
          w1 = (if truthy (q_companyId query) then emptyWhere\<lparr>w_companyId := q_companyId query\<rparr>
                else (case requestingUser of
                        Some r \<Rightarrow> emptyWhere\<lparr>w_companyId := Some (us_companyId r)\<rparr>
                      | None \<Rightarrow> emptyWhere));
          w2 = (case requestingUser of
                  Some r \<Rightarrow> if us_role r = MANAGER then w1\<lparr>w_teamId := Some (us_teamId r)\<rparr> else w1
                | None \<Rightarrow> w1);
          w3 = (case q_role query of Some r \<Rightarrow> w2\<lparr>w_role := Some r\<rparr> | None \<Rightarrow> w2);
          w = (if truthy (q_search query) then w3\<lparr>w_emailContains := q_search query\<rparr> else w3);
          found = filter (userMatches w) (users s);
          total = length found
      in \<lparr>data = map (includeCompany s)
                     (take (q_limit query) (drop skip (sort_key (\<lambda>u. - u_createdAt u) found))),
          pg_page = q_page query, pg_limit = q_limit query, pg_total = total,
          pg_totalPages = (total + q_limit query - 1) div q_limit query\<rparr>)"

definition updateUser ::
  "string \<Rightarrow> UpdateUserInput \<Rightarrow> UserSession \<Rightarrow> Store \<Rightarrow> (ApiError + User) \<times> Store" where
  "updateUser userId input requestingUser s =
     (let w0 = emptyWhere\<lparr>w_id := Some userId, w_companyId := Some (us_companyId requestingUser)\<rparr>;
          w = (if us_role requestingUser = MANAGER
                 then w0\<lparr>w_teamId := Some (us_teamId requestingUser)\<rparr>
               else if us_role requestingUser = COLLABORATEUR
                 then w0\<lparr>w_id := Some (us_id requestingUser)\<rparr>
               else w0)
      in (case find (userMatches w) (users s) of
            None \<Rightarrow> (Inl USER_NOT_FOUND, s)
          | Some existingUser \<Rightarrow>
              let newRole = (case uu_role input of Some r \<Rightarrow> r | None \<Rightarrow> u_role existingUser);
                  newTeamId = (case uu_teamId input of Some t \<Rightarrow> t | None \<Rightarrow> u_teamId existingUser)
              in if newRole = MANAGER \<and> \<not> truthy newTeamId then (Inl TEAM_ID_REQUIRED, s)
                 else if newRole = ADMIN_RH \<and> truthy newTeamId then (Inl TEAM_ID_NOT_ALLOWED, s)
                 else
                   let upd = (\<lambda>u. u\<lparr>u_email := (case uu_email input of Some e \<Rightarrow> e | None \<Rightarrow> u_email u),
                                     u_role := (case uu_role input of Some r \<Rightarrow> r | None \<Rightarrow> u_role u),
                                     u_teamId := (if newRole = ADMIN_RH then None else newTeamId)\<rparr>)
                   in if (case uu_email input of
                            Some e \<Rightarrow> list_ex (\<lambda>u. \<not> userMatches w u \<and> u_email u = e) (users s)
                          | None \<Rightarrow> False)
                      then (Inl USER_UPDATE_FAILED, s)
                      else (Inr (upd existingUser),
                            s\<lparr>users := map (\<lambda>u. if userMatches w u then upd u else u) (users s)\<rparr>)))"

text \<open>
  Deleting a user row deletes its magic links and sessions with it
  (\<open>ON DELETE CASCADE\<close> on both foreign keys).
\<close>

definition deleteUser :: "string \<Rightarrow> UserSession \<Rightarrow> Store \<Rightarrow> (ApiError + unit) \<times> Store" where
  "deleteUser userId requestingUser s =
     (let w0 = emptyWhere\<lparr>w_id := Some userId, w_companyId := Some (us_companyId requestingUser)\<rparr>
      in if us_role requestingUser = COLLABORATEUR then (Inl UNAUTHORIZED, s)
         else
           let w = (if us_role requestingUser = MANAGER
                      then w0\<lparr>w_teamId := Some (us_teamId requestingUser)\<rparr> else w0)
           in (case find (userMatches w) (users s) of
                 None \<Rightarrow> (Inl USER_NOT_FOUND, s)
               | Some existingUser \<Rightarrow>
                   (Inr (),
                    s\<lparr>users := deleteMany (userMatches w) (users s),
                      magicLinks := deleteMany (\<lambda>l. ml_userId l = u_id existingUser) (magicLinks s),
                      authSessions := deleteMany (\<lambda>a. as_userId a = u_id existingUser) (authSessions s)\<rparr>)))"

section \<open>A worked store\<close>

text \<open>
  A small store for the concrete runs below: two companies, an employee and an HR
  admin of the first, an employee of the second, three magic links (one already used)
  and one session; the later stores are what the runs below leave. \<open>digest0\<close> stands
  in for the digest there; it is injective, as the runs need of it. Company, user and
  team ids have the shape the request schemas ask for; tokens and the ids of links and
  sessions are kept short.
\<close>

definition digest0 :: "string \<Rightarrow> string" where
  "digest0 t = CHR ''#'' # t"

definition acme :: Company where
  "acme = \<lparr>c_id = ''cjacme0001'', c_name = ''Acme'', c_domain = ''acme.com'', c_createdAt = 0\<rparr>"

definition globex :: Company where
  "globex = \<lparr>c_id = ''cjglobex01'', c_name = ''Globex'', c_domain = ''globex.com'', c_createdAt = 0\<rparr>"

definition alice :: User where
  "alice = \<lparr>u_id = ''cjalice001'', u_companyId = ''cjacme0001'', u_email = ''alice@acme.com'',
            u_role = COLLABORATEUR, u_teamId = None, u_createdAt = 1\<rparr>"

definition bob :: User where
  "bob = \<lparr>u_id = ''cjbob00001'', u_companyId = ''cjacme0001'', u_email = ''bob@acme.com'',
          u_role = ADMIN_RH, u_teamId = None, u_createdAt = 2\<rparr>"

definition carol :: User where
  "carol = \<lparr>u_id = ''cjcarol001'', u_companyId = ''cjglobex01'', u_email = ''carol@globex.com'',
            u_role = COLLABORATEUR, u_teamId = None, u_createdAt = 3\<rparr>"

definition bobSession :: UserSession where
  "bobSession = \<lparr>us_id = ''cjbob00001'', us_role = ADMIN_RH, us_companyId = ''cjacme0001'', us_teamId = None\<rparr>"

definition linkOld :: MagicLink where
  "linkOld = \<lparr>ml_id = ''ml0'', ml_userId = ''cjalice001'', ml_tokenHash = digest0 ''t0'',
              ml_usedAt = Some 5, ml_expiresAt = 900, ml_createdAt = 4\<rparr>"

definition linkA :: MagicLink where
  "linkA = \<lparr>ml_id = ''ml1'', ml_userId = ''cjalice001'', ml_tokenHash = digest0 ''t1'',
            ml_usedAt = None, ml_expiresAt = 1000, ml_createdAt = 10\<rparr>"

definition linkC :: MagicLink where
  "linkC = \<lparr>ml_id = ''mlc'', ml_userId = ''cjcarol001'', ml_tokenHash = digest0 ''tc'',
            ml_usedAt = None, ml_expiresAt = 1000, ml_createdAt = 10\<rparr>"

definition sessB :: AuthSession where
  "sessB = \<lparr>as_id = ''sb'', as_userId = ''cjbob00001'', as_tokenHash = digest0 ''rb'',
            as_expiresAt = 2000, as_createdAt = 0\<rparr>"

definition store0 :: Store where
  "store0 = \<lparr>companies = [acme, globex], users = [alice, bob, carol],
             magicLinks = [linkOld, linkA, linkC], authSessions = [sessB]\<rparr>"

definition issuedLink :: "string \<Rightarrow> string \<Rightarrow> int \<Rightarrow> MagicLink" where
  "issuedLink tok newId now =
     \<lparr>ml_id = newId, ml_userId = ''cjalice001'', ml_tokenHash = digest0 tok,
      ml_usedAt = None, ml_expiresAt = now + 86400000, ml_createdAt = now\<rparr>"

definition storeRequested :: "string \<Rightarrow> string \<Rightarrow> int \<Rightarrow> Store" where
  "storeRequested tok newId now = store0\<lparr>magicLinks := [linkOld, linkC, issuedLink tok newId now]\<rparr>"

definition sessA :: "int \<Rightarrow> AuthSession" where
  "sessA t = \<lparr>as_id = ''s1'', as_userId = ''cjalice001'', as_tokenHash = digest0 ''r1'',
              as_expiresAt = t + 2592000000, as_createdAt = t\<rparr>"

definition storeRedeemed :: "int \<Rightarrow> Store" where
  "storeRedeemed t = store0\<lparr>magicLinks := [linkOld, linkA\<lparr>ml_usedAt := Some t\<rparr>, linkC],
                            authSessions := [sessB, sessA t]\<rparr>"

definition redeemed :: "int \<Rightarrow> SessionCreated" where
  "redeemed t = \<lparr>sc_user = \<lparr>sum_id = ''cjalice001'', sum_email = ''alice@acme.com'', sum_role = COLLABORATEUR\<rparr>,
                 accessToken = \<lparr>jwt_userId = ''cjalice001'', jwt_role = COLLABORATEUR,
                                jwt_companyId = ''cjacme0001'', jwt_teamId = None\<rparr>,
                 refreshToken = ''r1'', refreshExpiresAt = t + 2592000000\<rparr>"

definition alicePromoted :: User where
  "alicePromoted = alice\<lparr>u_role := MANAGER, u_teamId := Some ''cjteam0001''\<rparr>"

definition storePromoted :: Store where
  "storePromoted = (storeRedeemed 500)\<lparr>users := [alicePromoted, bob, carol]\<rparr>"

definition sessC :: AuthSession where
  "sessC = \<lparr>as_id = ''s3'', as_userId = ''cjcarol001'', as_tokenHash = digest0 ''rc'',
            as_expiresAt = 550 + 2592000000, as_createdAt = 550\<rparr>"

definition storeLater :: Store where
  "storeLater = storePromoted\<lparr>authSessions := [sessA 500, sessC]\<rparr>"

lemmas example_defs =
  digest0_def acme_def globex_def alice_def bob_def carol_def bobSession_def linkOld_def
  linkA_def linkC_def sessB_def store0_def issuedLink_def storeRequested_def sessA_def
  storeRedeemed_def redeemed_def alicePromoted_def storePromoted_def sessC_def storeLater_def

section \<open>Facts about lookups\<close>

lemma find_unique_map:
  assumes "\<And>x. P (f x) = P x"
  shows "find P (map f xs) = map_option f (find P xs)"
  using assms by (induction xs) auto

lemma find_append_new:
  "\<not> list_ex P xs \<Longrightarrow> P x \<Longrightarrow> find P (xs @ [x]) = Some x"
  by (induction xs) auto

lemma find_Some_in_set: "find P xs = Some x \<Longrightarrow> x \<in> set xs"
  by (auto simp: find_Some_iff)

text \<open>What a successful call of each magic-link operation has done.\<close>

lemma generateMagicLink_Inr:
  assumes "generateMagicLink sha256hex tok newId now email s = (Inr r, s')"
  shows "\<exists>user. find (\<lambda>u. u_email u = email) (users s) = Some user \<and>
           \<not> list_ex (\<lambda>l. ml_id l = newId \<or> ml_tokenHash l = sha256hex tok)
                 (filter (\<lambda>l. ml_userId l \<noteq> u_id user \<or> ml_usedAt l \<noteq> None) (magicLinks s)) \<and>
           s' = s\<lparr>magicLinks :=
             filter (\<lambda>l. ml_userId l \<noteq> u_id user \<or> ml_usedAt l \<noteq> None) (magicLinks s) @
             [\<lparr>ml_id = newId, ml_userId = u_id user, ml_tokenHash = sha256hex tok,
               ml_usedAt = None, ml_expiresAt = now + 86400000, ml_createdAt = now\<rparr>]\<rparr>"
  using assms
  by (auto simp: generateMagicLink_def magicLink_create_def deleteMany_def Let_def
           split: option.splits if_splits)

lemma redeem_Inr:
  assumes "validateMagicLinkAndCreateSession sha256hex rtok sid t0 S s = (Inr res, s1)"
  shows "\<exists>l u. find (\<lambda>l. ml_tokenHash l = sha256hex S) (magicLinks s) = Some l \<and>
           find (\<lambda>u. u_id u = ml_userId l) (users s) = Some u \<and>
           \<not> list_ex (\<lambda>a. as_id a = sid \<or> as_tokenHash a = sha256hex rtok) (authSessions s) \<and>
           res = \<lparr>sc_user = summary u, accessToken = generateAccessToken u,
                  refreshToken = rtok, refreshExpiresAt = t0 + 2592000000\<rparr> \<and>
           authSessions s1 = authSessions s @
               [\<lparr>as_id = sid, as_userId = u_id u, as_tokenHash = sha256hex rtok,
                 as_expiresAt = t0 + 2592000000, as_createdAt = t0\<rparr>] \<and>
           users s1 = users s"
  using assms
  by (auto simp: validateMagicLinkAndCreateSession_def authSession_create_def Let_def
           split: option.splits if_splits)

lemma redeem_marks_used:
  assumes link: "find (\<lambda>l. ml_tokenHash l = d) rows = Some l"
  shows "find (\<lambda>l. ml_tokenHash l = d)
           (map (\<lambda>x. if ml_id x = ml_id l then x\<lparr>ml_usedAt := Some t\<rparr> else x) rows)
         = Some (l\<lparr>ml_usedAt := Some t\<rparr>)"
proof -
  have "find (\<lambda>l. ml_tokenHash l = d)
           (map (\<lambda>x. if ml_id x = ml_id l then x\<lparr>ml_usedAt := Some t\<rparr> else x) rows)
        = map_option (\<lambda>x. if ml_id x = ml_id l then x\<lparr>ml_usedAt := Some t\<rparr> else x)
            (find (\<lambda>l. ml_tokenHash l = d) rows)"
    by (rule find_unique_map) simp
  then show ?thesis using link by simp
qed

text \<open>Runs on the worked store.\<close>

lemma ex_request1:
  "generateMagicLink digest0 ''t2'' ''ml2'' 20 ''alice@acme.com'' store0 =
     (Inr \<lparr>magicLinkId = ''ml2'', token = ''t2'', expiresAt = 86400020\<rparr>,
      storeRequested ''t2'' ''ml2'' 20)"
  by (simp add: generateMagicLink_def magicLink_create_def deleteMany_def example_defs)

lemma ex_request2:
  "generateMagicLink digest0 ''t3'' ''ml3'' 30 ''alice@acme.com'' (storeRequested ''t2'' ''ml2'' 20) =
     (Inr \<lparr>magicLinkId = ''ml3'', token = ''t3'', expiresAt = 86400030\<rparr>,
      storeRequested ''t3'' ''ml3'' 30)"
  by (simp add: generateMagicLink_def magicLink_create_def deleteMany_def example_defs)

lemma ex_redeem:
  "validateMagicLinkAndCreateSession digest0 ''r1'' ''s1'' 500 ''t1'' store0 =
     (Inr (redeemed 500), storeRedeemed 500)"
  by (simp add: validateMagicLinkAndCreateSession_def authSession_create_def summary_def
                generateAccessToken_def truthy_def example_defs)

lemma ex_promote:
  "updateUser ''cjalice001'' \<lparr>uu_email = None, uu_role = Some MANAGER, uu_teamId = Some (Some ''cjteam0001'')\<rparr>
      bobSession (storeRedeemed 500) = (Inr alicePromoted, storePromoted)"
  by (simp add: updateUser_def userMatches_def emptyWhere_def truthy_def Let_def example_defs)

lemma ex_validate_promoted:
  "validateSession digest0 600 ''r1'' storePromoted =
     (Inr \<lparr>us_id = ''cjalice001'', us_role = MANAGER, us_companyId = ''cjacme0001'', us_teamId = Some ''cjteam0001''\<rparr>,
      storePromoted)"
  by (simp add: validateSession_def example_defs)

section \<open>Magic links: issuing\<close>

text \<open>
  Claim C10. When \<open>generateMagicLink\<close> (the spec's \<open>request(email)\<close>) is called with an
  email that no user row carries, it fails with \<open>USER_NOT_FOUND\<close> and returns the very
  store it was given: no magic link is deleted or created and no session is touched,
  because the lookup of the user precedes every write.
\<close>

theorem generateMagicLink_unknown_email:
  assumes "email \<notin> set (map u_email (users s))"
  shows "generateMagicLink sha256hex tok newId now email s = (Inl USER_NOT_FOUND, s)"
proof -
  have "find (\<lambda>u. u_email u = email) (users s) = None"
    using assms by (auto simp: find_None_iff)
  then show ?thesis by (simp add: generateMagicLink_def)
qed

theorem generateMagicLink_unknown_email_witness:
  "''nobody@acme.com'' \<notin> set (map u_email (users store0)) \<and>
   generateMagicLink digest0 ''t2'' ''ml2'' 20 ''nobody@acme.com'' store0 = (Inl USER_NOT_FOUND, store0)"
proof -
  have h: "''nobody@acme.com'' \<notin> set (map u_email (users store0))"
    by (simp add: example_defs)
  show ?thesis
    using h generateMagicLink_unknown_email [OF h, of digest0 "''t2''" "''ml2''" 20] by simp
qed

text \<open>
  Claim C9. A successful \<open>generateMagicLink\<close> for the user found under the email leaves
  exactly these magic links: the former rows that belong to another user or are already
  used (\<open>usedAt\<close> set), unchanged and in their order, followed by one new unused row of
  that user with the digest of the new token and an expiry 24 hours ahead. So only the
  user's own unused links are deleted and exactly one row is created; users, sessions
  and companies are as before.
\<close>

theorem generateMagicLink_frame:
  assumes "generateMagicLink sha256hex tok newId now email s = (Inr r, s')"
  shows "\<exists>user. find (\<lambda>u. u_email u = email) (users s) = Some user \<and>
           magicLinks s' =
             filter (\<lambda>l. ml_userId l \<noteq> u_id user \<or> ml_usedAt l \<noteq> None) (magicLinks s) @
             [\<lparr>ml_id = newId, ml_userId = u_id user, ml_tokenHash = sha256hex tok,
               ml_usedAt = None, ml_expiresAt = now + 86400000, ml_createdAt = now\<rparr>] \<and>
           users s' = users s \<and> authSessions s' = authSessions s \<and> companies s' = companies s"
  using generateMagicLink_Inr [OF assms] by auto

theorem generateMagicLink_frame_witness:
  "generateMagicLink digest0 ''t2'' ''ml2'' 20 ''alice@acme.com'' store0 =
     (Inr \<lparr>magicLinkId = ''ml2'', token = ''t2'', expiresAt = 86400020\<rparr>,
      storeRequested ''t2'' ''ml2'' 20) \<and>
   find (\<lambda>u. u_email u = ''alice@acme.com'') (users store0) = Some alice \<and>
   magicLinks store0 = [linkOld, linkA, linkC] \<and>
   magicLinks (storeRequested ''t2'' ''ml2'' 20) =
     [linkOld, linkC,
      \<lparr>ml_id = ''ml2'', ml_userId = u_id alice, ml_tokenHash = digest0 ''t2'',
        ml_usedAt = None, ml_expiresAt = 20 + 86400000, ml_createdAt = 20\<rparr>] \<and>
   users (storeRequested ''t2'' ''ml2'' 20) = users store0 \<and>
   authSessions (storeRequested ''t2'' ''ml2'' 20) = authSessions store0 \<and>
   companies (storeRequested ''t2'' ''ml2'' 20) = companies store0"
proof -
  have found: "find (\<lambda>u. u_email u = ''alice@acme.com'') (users store0) = Some alice"
    by (simp add: example_defs)
  have kept: "filter (\<lambda>l. ml_userId l \<noteq> u_id alice \<or> ml_usedAt l \<noteq> None) (magicLinks store0)
                = [linkOld, linkC]"
    by (simp add: example_defs)
  have "magicLinks store0 = [linkOld, linkA, linkC]"
    by (simp add: store0_def)
  then show ?thesis
    using generateMagicLink_frame [OF ex_request1] ex_request1 found kept by auto
qed

text \<open>
  Claim C5. After two successful calls of \<open>generateMagicLink\<close> for the same email, the
  second following the first, redeeming the token of the first call fails with
  \<open>INVALID_TOKEN\<close> and changes nothing: its row was deleted by the second call. After
  the second call the user owns exactly one unused magic link, the one just issued, so
  at most one unredeemed, unexpired link of that user exists. The two tokens are taken
  to have different digests, as two draws of 32 random bytes do.
\<close>

theorem second_request_invalidates_first:
  assumes r1: "generateMagicLink sha256hex tok1 id1 now1 email s0 = (Inr res1, s1)"
      and r2: "generateMagicLink sha256hex tok2 id2 now2 email s1 = (Inr res2, s2)"
      and digests: "sha256hex tok1 \<noteq> sha256hex tok2"
  shows "validateMagicLinkAndCreateSession sha256hex rtok sid now3 tok1 s2 = (Inl INVALID_TOKEN, s2) \<and>
         (\<exists>user. find (\<lambda>u. u_email u = email) (users s0) = Some user \<and>
            filter (\<lambda>l. ml_userId l = u_id user \<and> ml_usedAt l = None) (magicLinks s2) =
              [\<lparr>ml_id = id2, ml_userId = u_id user, ml_tokenHash = sha256hex tok2,
                ml_usedAt = None, ml_expiresAt = now2 + 86400000, ml_createdAt = now2\<rparr>])"
proof -
  let ?keep = "\<lambda>uid (l::MagicLink). ml_userId l \<noteq> uid \<or> ml_usedAt l \<noteq> None"
  from generateMagicLink_Inr [OF r1] obtain user where
    u: "find (\<lambda>u. u_email u = email) (users s0) = Some user" and
    fresh1: "\<not> list_ex (\<lambda>l. ml_id l = id1 \<or> ml_tokenHash l = sha256hex tok1)
                 (filter (?keep (u_id user)) (magicLinks s0))" and
    s1: "s1 = s0\<lparr>magicLinks := filter (?keep (u_id user)) (magicLinks s0) @
             [\<lparr>ml_id = id1, ml_userId = u_id user, ml_tokenHash = sha256hex tok1,
               ml_usedAt = None, ml_expiresAt = now1 + 86400000, ml_createdAt = now1\<rparr>]\<rparr>"
    by blast
  have u1: "find (\<lambda>u. u_email u = email) (users s1) = Some user"
    using u s1 by simp
  from generateMagicLink_Inr [OF r2] u1 have
    s2: "s2 = s1\<lparr>magicLinks := filter (?keep (u_id user)) (magicLinks s1) @
             [\<lparr>ml_id = id2, ml_userId = u_id user, ml_tokenHash = sha256hex tok2,
               ml_usedAt = None, ml_expiresAt = now2 + 86400000, ml_createdAt = now2\<rparr>]\<rparr>"
    by auto
  have links2: "magicLinks s2 = filter (?keep (u_id user)) (magicLinks s0) @
             [\<lparr>ml_id = id2, ml_userId = u_id user, ml_tokenHash = sha256hex tok2,
               ml_usedAt = None, ml_expiresAt = now2 + 86400000, ml_createdAt = now2\<rparr>]"
    using s1 s2 by simp
  have gone: "find (\<lambda>l. ml_tokenHash l = sha256hex tok1) (magicLinks s2) = None"
    using fresh1 digests unfolding links2
    by (auto simp: find_None_iff list_ex_iff)
  have first: "validateMagicLinkAndCreateSession sha256hex rtok sid now3 tok1 s2 = (Inl INVALID_TOKEN, s2)"
    using gone by (simp add: validateMagicLinkAndCreateSession_def)
  have one: "filter (\<lambda>l. ml_userId l = u_id user \<and> ml_usedAt l = None) (magicLinks s2) =
              [\<lparr>ml_id = id2, ml_userId = u_id user, ml_tokenHash = sha256hex tok2,
                ml_usedAt = None, ml_expiresAt = now2 + 86400000, ml_createdAt = now2\<rparr>]"
    unfolding links2 by (auto simp: filter_empty_conv)
  show ?thesis using first u one by blast
qed

theorem second_request_invalidates_first_witness:
  "generateMagicLink digest0 ''t2'' ''ml2'' 20 ''alice@acme.com'' store0 =
     (Inr \<lparr>magicLinkId = ''ml2'', token = ''t2'', expiresAt = 86400020\<rparr>,
      storeRequested ''t2'' ''ml2'' 20) \<and>
   generateMagicLink digest0 ''t3'' ''ml3'' 30 ''alice@acme.com'' (storeRequested ''t2'' ''ml2'' 20) =
     (Inr \<lparr>magicLinkId = ''ml3'', token = ''t3'', expiresAt = 86400030\<rparr>,
      storeRequested ''t3'' ''ml3'' 30) \<and>
   digest0 ''t2'' \<noteq> digest0 ''t3'' \<and>
   validateMagicLinkAndCreateSession digest0 ''r1'' ''s1'' 40 ''t2'' (storeRequested ''t3'' ''ml3'' 30) =
     (Inl INVALID_TOKEN, storeRequested ''t3'' ''ml3'' 30) \<and>
   filter (\<lambda>l. ml_userId l = u_id alice \<and> ml_usedAt l = None)
          (magicLinks (storeRequested ''t3'' ''ml3'' 30)) = [issuedLink ''t3'' ''ml3'' 30]"
proof -
  have d: "digest0 ''t2'' \<noteq> digest0 ''t3''"
    by (simp add: digest0_def)
  have found: "find (\<lambda>u. u_email u = ''alice@acme.com'') (users store0) = Some alice"
    by (simp add: example_defs)
  have new: "issuedLink ''t3'' ''ml3'' 30 =
               \<lparr>ml_id = ''ml3'', ml_userId = u_id alice, ml_tokenHash = digest0 ''t3'',
                ml_usedAt = None, ml_expiresAt = 30 + 86400000, ml_createdAt = 30\<rparr>"
    by (simp add: issuedLink_def alice_def)
  show ?thesis
    using second_request_invalidates_first
            [OF ex_request1 ex_request2 d, of "''r1''" "''s1''" 40]
          ex_request1 ex_request2 d found new
    by auto
qed

section \<open>Sessions: revoking\<close>

text \<open>
  Claim C8. \<open>revokeSession\<close> succeeds for every refresh token, whether a session with
  its digest exists or not, and revoking twice leaves the same store as revoking once.
  In the store it leaves, \<open>validateSession\<close> of that token fails with \<open>INVALID_SESSION\<close>
  at any time and leaves the store as it is, so every further validation fails alike.
\<close>

theorem revoke_then_validate:
  "fst (revokeSession sha256hex r s) = Inr () \<and>
   validateSession sha256hex now r (snd (revokeSession sha256hex r s))
     = (Inl INVALID_SESSION, snd (revokeSession sha256hex r s)) \<and>
   snd (revokeSession sha256hex r (snd (revokeSession sha256hex r s)))
     = snd (revokeSession sha256hex r s)"
proof -
  let ?s' = "snd (revokeSession sha256hex r s)"
  have f: "find (\<lambda>a. as_tokenHash a = sha256hex r) (authSessions ?s') = None"
    by (simp add: revokeSession_def deleteMany_def find_None_iff)
  have "validateSession sha256hex now r ?s' = (Inl INVALID_SESSION, ?s')"
    using f by (simp add: validateSession_def)
  moreover have "snd (revokeSession sha256hex r ?s') = ?s'"
    by (simp add: revokeSession_def deleteMany_def)
  ultimately show ?thesis by (simp add: revokeSession_def)
qed

theorem revoke_then_validate_witness:
  "revokeSession digest0 ''rb'' store0 = (Inr (), store0\<lparr>authSessions := []\<rparr>) \<and>
   validateSession digest0 100 ''rb'' store0 =
     (Inr \<lparr>us_id = ''cjbob00001'', us_role = ADMIN_RH, us_companyId = ''cjacme0001'', us_teamId = None\<rparr>, store0) \<and>
   validateSession digest0 100 ''rb'' (store0\<lparr>authSessions := []\<rparr>) =
     (Inl INVALID_SESSION, store0\<lparr>authSessions := []\<rparr>) \<and>
   revokeSession digest0 ''rb'' (store0\<lparr>authSessions := []\<rparr>) = (Inr (), store0\<lparr>authSessions := []\<rparr>)"
proof -
  have rv: "revokeSession digest0 ''rb'' store0 = (Inr (), store0\<lparr>authSessions := []\<rparr>)"
    by (simp add: revokeSession_def deleteMany_def example_defs)
  have before: "validateSession digest0 100 ''rb'' store0 =
     (Inr \<lparr>us_id = ''cjbob00001'', us_role = ADMIN_RH, us_companyId = ''cjacme0001'', us_teamId = None\<rparr>, store0)"
    by (simp add: validateSession_def example_defs)
  have again: "revokeSession digest0 ''rb'' (store0\<lparr>authSessions := []\<rparr>) = (Inr (), store0\<lparr>authSessions := []\<rparr>)"
    by (simp add: revokeSession_def deleteMany_def)
  show ?thesis
    using revoke_then_validate [of digest0 "''rb''" store0 100] rv before again by simp
qed

section \<open>Magic links: redeeming\<close>

text \<open>
  Claim C2, as the code has it. Let the token's link be stored, not past its expiry at
  the time of the call and unused, let its owner's row exist (the foreign key), and let
  the new session's id and refresh digest be fresh (the unique index). Then
  \<open>validateMagicLinkAndCreateSession\<close> succeeds, and in the store it leaves every
  further redemption of the same token fails and writes nothing: with
  \<open>TOKEN_ALREADY_USED\<close> as long as the link is not past its expiry at that later call,
  and with \<open>EXPIRED_TOKEN\<close> once it is, since the expiry is checked before the use.
\<close>

theorem redeem_once:
  assumes link: "find (\<lambda>l. ml_tokenHash l = sha256hex S) (magicLinks s) = Some l"
      and unexpired: "\<not> ml_expiresAt l < t1"
      and unredeemed: "ml_usedAt l = None"
      and owner: "find (\<lambda>u. u_id u = ml_userId l) (users s) = Some u"
      and fresh: "\<not> list_ex (\<lambda>a. as_id a = sid \<or> as_tokenHash a = sha256hex rtok) (authSessions s)"
  shows "\<exists>res s1.
           validateMagicLinkAndCreateSession sha256hex rtok sid t1 S s = (Inr res, s1) \<and>
           (\<forall>rtok' sid' t2.
              validateMagicLinkAndCreateSession sha256hex rtok' sid' t2 S s1 =
                (Inl (if ml_expiresAt l < t2 then EXPIRED_TOKEN else TOKEN_ALREADY_USED), s1))"
proof -
  let ?s1 = "s\<lparr>magicLinks :=
               map (\<lambda>x. if ml_id x = ml_id l then x\<lparr>ml_usedAt := Some t1\<rparr> else x) (magicLinks s),
             authSessions := authSessions s @
               [\<lparr>as_id = sid, as_userId = u_id u, as_tokenHash = sha256hex rtok,
                 as_expiresAt = t1 + 2592000000, as_createdAt = t1\<rparr>]\<rparr>"
  let ?res = "\<lparr>sc_user = summary u, accessToken = generateAccessToken u,
               refreshToken = rtok, refreshExpiresAt = t1 + 2592000000\<rparr>"
  have first: "validateMagicLinkAndCreateSession sha256hex rtok sid t1 S s = (Inr ?res, ?s1)"
    using link unexpired unredeemed owner fresh
    by (simp add: validateMagicLinkAndCreateSession_def authSession_create_def Let_def)
  have found: "find (\<lambda>l. ml_tokenHash l = sha256hex S) (magicLinks ?s1) = Some (l\<lparr>ml_usedAt := Some t1\<rparr>)"
    using redeem_marks_used [OF link] by simp
  have second: "validateMagicLinkAndCreateSession sha256hex rtok' sid' t2 S ?s1 =
                (Inl (if ml_expiresAt l < t2 then EXPIRED_TOKEN else TOKEN_ALREADY_USED), ?s1)"
    for rtok' sid' t2
    unfolding validateMagicLinkAndCreateSession_def found by simp
  show ?thesis using first second by blast
qed

theorem redeem_once_witness:
  "find (\<lambda>l. ml_tokenHash l = digest0 ''t1'') (magicLinks store0) = Some linkA \<and>
   \<not> ml_expiresAt linkA < 500 \<and> ml_usedAt linkA = None \<and>
   find (\<lambda>u. u_id u = ml_userId linkA) (users store0) = Some alice \<and>
   \<not> list_ex (\<lambda>a. as_id a = ''s1'' \<or> as_tokenHash a = digest0 ''r1'') (authSessions store0) \<and>
   validateMagicLinkAndCreateSession digest0 ''r1'' ''s1'' 500 ''t1'' store0 =
     (Inr (redeemed 500), storeRedeemed 500) \<and>
   validateMagicLinkAndCreateSession digest0 ''r2'' ''s2'' 600 ''t1'' (storeRedeemed 500) =
     (Inl TOKEN_ALREADY_USED, storeRedeemed 500)"
proof -
  have h1: "find (\<lambda>l. ml_tokenHash l = digest0 ''t1'') (magicLinks store0) = Some linkA"
    by (simp add: example_defs)
  have h2: "\<not> ml_expiresAt linkA < 500" and h3: "ml_usedAt linkA = None"
    by (simp_all add: linkA_def)
  have h4: "find (\<lambda>u. u_id u = ml_userId linkA) (users store0) = Some alice"
    by (simp add: example_defs)
  have h5: "\<not> list_ex (\<lambda>a. as_id a = ''s1'' \<or> as_tokenHash a = digest0 ''r1'') (authSessions store0)"
    by (simp add: example_defs)
  from redeem_once [where sha256hex = digest0 and S = "''t1''", OF h1 h2 h3 h4 h5]
  obtain res s1 where
    a: "validateMagicLinkAndCreateSession digest0 ''r1'' ''s1'' 500 ''t1'' store0 = (Inr res, s1)" and
    b: "\<And>rtok' sid' t2. validateMagicLinkAndCreateSession digest0 rtok' sid' t2 ''t1'' s1 =
          (Inl (if ml_expiresAt linkA < t2 then EXPIRED_TOKEN else TOKEN_ALREADY_USED), s1)"
    by blast
  from a ex_redeem have s1: "s1 = storeRedeemed 500" by simp
  have "validateMagicLinkAndCreateSession digest0 ''r2'' ''s2'' 600 ''t1'' (storeRedeemed 500) =
     (Inl TOKEN_ALREADY_USED, storeRedeemed 500)"
    using b [of "''r2''" "''s2''" 600] unfolding s1 by (simp add: linkA_def)
  then show ?thesis using h1 h2 h3 h4 h5 ex_redeem by simp
qed

text \<open>
  The claim as stated, with any second redemption after the first failing with
  \<open>TOKEN_ALREADY_USED\<close>, fails on the worked store: the link expires at 1000, is redeemed
  at 500, and the second redemption at 1001 fails with \<open>EXPIRED_TOKEN\<close>.
\<close>

theorem redeem_twice_counterexample:
  "find (\<lambda>l. ml_tokenHash l = digest0 ''t1'') (magicLinks store0) = Some linkA \<and>
   ml_expiresAt linkA = 1000 \<and> ml_usedAt linkA = None \<and>
   validateMagicLinkAndCreateSession digest0 ''r1'' ''s1'' 500 ''t1'' store0 =
     (Inr (redeemed 500), storeRedeemed 500) \<and>
   validateMagicLinkAndCreateSession digest0 ''r2'' ''s2'' 1001 ''t1'' (storeRedeemed 500) =
     (Inl EXPIRED_TOKEN, storeRedeemed 500) \<and>
   EXPIRED_TOKEN \<noteq> TOKEN_ALREADY_USED"
proof -
  have "validateMagicLinkAndCreateSession digest0 ''r2'' ''s2'' 1001 ''t1'' (storeRedeemed 500) =
          (Inl EXPIRED_TOKEN, storeRedeemed 500)"
    by (simp add: validateMagicLinkAndCreateSession_def example_defs)
  moreover have "find (\<lambda>l. ml_tokenHash l = digest0 ''t1'') (magicLinks store0) = Some linkA"
    by (simp add: example_defs)
  ultimately show ?thesis using ex_redeem by (simp add: linkA_def)
qed

text \<open>
  Claim C4, as the code has it. For a stored magic link with expiry \<open>E\<close>, a redemption
  at a time \<open>t > E\<close> fails with \<open>EXPIRED_TOKEN\<close> and writes nothing; at a time
  \<open>t \<le> E\<close>, the instant \<open>E\<close> included, it is not rejected as expired (the test is
  \<open>expiresAt < now\<close>), and it succeeds if the link is unused, its owner's row exists and
  the new session's id and refresh digest are fresh.
\<close>

theorem redeem_expired_iff:
  assumes link: "find (\<lambda>l. ml_tokenHash l = sha256hex S) (magicLinks s) = Some l"
  shows "(ml_expiresAt l < t \<longrightarrow>
            validateMagicLinkAndCreateSession sha256hex rtok sid t S s = (Inl EXPIRED_TOKEN, s)) \<and>
         (t \<le> ml_expiresAt l \<longrightarrow>
            fst (validateMagicLinkAndCreateSession sha256hex rtok sid t S s) \<noteq> Inl EXPIRED_TOKEN) \<and>
         (t \<le> ml_expiresAt l \<and> ml_usedAt l = None \<and>
          find (\<lambda>u. u_id u = ml_userId l) (users s) = Some u \<and>
          \<not> list_ex (\<lambda>a. as_id a = sid \<or> as_tokenHash a = sha256hex rtok) (authSessions s) \<longrightarrow>
            (\<exists>res s1. validateMagicLinkAndCreateSession sha256hex rtok sid t S s = (Inr res, s1)))"
proof (intro conjI impI)
  assume "ml_expiresAt l < t"
  then show "validateMagicLinkAndCreateSession sha256hex rtok sid t S s = (Inl EXPIRED_TOKEN, s)"
    using link by (simp add: validateMagicLinkAndCreateSession_def)
next
  assume "t \<le> ml_expiresAt l"
  then have "\<not> ml_expiresAt l < t" by simp
  then show "fst (validateMagicLinkAndCreateSession sha256hex rtok sid t S s) \<noteq> Inl EXPIRED_TOKEN"
    using link
    by (simp add: validateMagicLinkAndCreateSession_def authSession_create_def Let_def
             split: option.splits)
next
  assume h: "t \<le> ml_expiresAt l \<and> ml_usedAt l = None \<and>
          find (\<lambda>u. u_id u = ml_userId l) (users s) = Some u \<and>
          \<not> list_ex (\<lambda>a. as_id a = sid \<or> as_tokenHash a = sha256hex rtok) (authSessions s)"
  then have "\<not> ml_expiresAt l < t" by simp
  then show "\<exists>res s1. validateMagicLinkAndCreateSession sha256hex rtok sid t S s = (Inr res, s1)"
    using link h
    by (simp add: validateMagicLinkAndCreateSession_def authSession_create_def Let_def)
qed

theorem redeem_expired_iff_witness:
  "find (\<lambda>l. ml_tokenHash l = digest0 ''t1'') (magicLinks store0) = Some linkA \<and>
   ml_expiresAt linkA < 1001 \<and>
   validateMagicLinkAndCreateSession digest0 ''r1'' ''s1'' 1001 ''t1'' store0 = (Inl EXPIRED_TOKEN, store0) \<and>
   1000 \<le> ml_expiresAt linkA \<and>
   fst (validateMagicLinkAndCreateSession digest0 ''r1'' ''s1'' 1000 ''t1'' store0) \<noteq> Inl EXPIRED_TOKEN \<and>
   ml_usedAt linkA = None \<and>
   find (\<lambda>u. u_id u = ml_userId linkA) (users store0) = Some alice \<and>
   \<not> list_ex (\<lambda>a. as_id a = ''s1'' \<or> as_tokenHash a = digest0 ''r1'') (authSessions store0) \<and>
   (\<exists>res s1. validateMagicLinkAndCreateSession digest0 ''r1'' ''s1'' 1000 ''t1'' store0 = (Inr res, s1))"
proof -
  have h: "find (\<lambda>l. ml_tokenHash l = digest0 ''t1'') (magicLinks store0) = Some linkA"
    by (simp add: example_defs)
  have e: "ml_expiresAt linkA < 1001" "1000 \<le> ml_expiresAt linkA" "ml_usedAt linkA = None"
    by (simp_all add: linkA_def)
  have o: "find (\<lambda>u. u_id u = ml_userId linkA) (users store0) = Some alice"
    by (simp add: example_defs)
  have f: "\<not> list_ex (\<lambda>a. as_id a = ''s1'' \<or> as_tokenHash a = digest0 ''r1'') (authSessions store0)"
    by (simp add: example_defs)
  show ?thesis
    using redeem_expired_iff [where sha256hex = digest0 and S = "''t1''" and t = 1001
                                and rtok = "''r1''" and sid = "''s1''" and u = alice, OF h]
          redeem_expired_iff [where sha256hex = digest0 and S = "''t1''" and t = 1000
                                and rtok = "''r1''" and sid = "''s1''" and u = alice, OF h]
          h e o f
    by simp
qed

text \<open>
  The claim as stated, with the boundary \<open>t = E\<close> failing, fails on the worked store:
  the link expires at 1000 and its redemption at 1000 succeeds.
\<close>

theorem redeem_at_expiry_counterexample:
  "find (\<lambda>l. ml_tokenHash l = digest0 ''t1'') (magicLinks store0) = Some linkA \<and>
   ml_expiresAt linkA = 1000 \<and>
   validateMagicLinkAndCreateSession digest0 ''r1'' ''s1'' 1000 ''t1'' store0 =
     (Inr (redeemed 1000), storeRedeemed 1000)"
  by (simp add: validateMagicLinkAndCreateSession_def authSession_create_def summary_def
                generateAccessToken_def truthy_def example_defs)

section \<open>Sessions: validating\<close>

text \<open>
  Claim C3, as the code has it. Take a session created by a successful redemption and
  any later store in which the lookup by the refresh token's digest still gives the
  session's row as the redemption left it; whatever else has happened to the session
  table, the users and the links since does not matter. As long as the session is not
  past its expiry, \<open>validateSession\<close> of the refresh token returns the id, role,
  company and team of the owner's row as it stands in that later store, and writes
  nothing: the user row is read again at every validation, so the context follows a
  change of role or team and equals the values at creation only while the row has not
  been changed.
\<close>

theorem validateSession_rereads_principal:
  assumes redeemed: "validateMagicLinkAndCreateSession sha256hex rtok sid t0 S s = (Inr res, s1)"
      and kept: "find (\<lambda>a. as_tokenHash a = sha256hex rtok) (authSessions s2) =
                 find (\<lambda>a. as_tokenHash a = sha256hex rtok) (authSessions s1)"
      and owner: "find (\<lambda>u. u_id u = sum_id (sc_user res)) (users s2) = Some u'"
      and live: "\<not> refreshExpiresAt res < t"
  shows "validateSession sha256hex t (refreshToken res) s2 =
           (Inr \<lparr>us_id = u_id u', us_role = u_role u',
                 us_companyId = u_companyId u', us_teamId = u_teamId u'\<rparr>, s2)"
proof -
  from redeem_Inr [OF redeemed] obtain u where
    fresh: "\<not> list_ex (\<lambda>a. as_id a = sid \<or> as_tokenHash a = sha256hex rtok) (authSessions s)" and
    res: "res = \<lparr>sc_user = summary u, accessToken = generateAccessToken u,
                  refreshToken = rtok, refreshExpiresAt = t0 + 2592000000\<rparr>" and
    sess: "authSessions s1 = authSessions s @
               [\<lparr>as_id = sid, as_userId = u_id u, as_tokenHash = sha256hex rtok,
                 as_expiresAt = t0 + 2592000000, as_createdAt = t0\<rparr>]"
    by blast
  have nohash: "\<not> list_ex (\<lambda>a. as_tokenHash a = sha256hex rtok) (authSessions s)"
    using fresh by (auto simp: list_ex_iff)
  have "find (\<lambda>a. as_tokenHash a = sha256hex rtok) (authSessions s1) =
                 Some \<lparr>as_id = sid, as_userId = u_id u, as_tokenHash = sha256hex rtok,
                       as_expiresAt = t0 + 2592000000, as_createdAt = t0\<rparr>"
    unfolding sess by (rule find_append_new [OF nohash]) simp
  with kept have found: "find (\<lambda>a. as_tokenHash a = sha256hex rtok) (authSessions s2) =
                 Some \<lparr>as_id = sid, as_userId = u_id u, as_tokenHash = sha256hex rtok,
                       as_expiresAt = t0 + 2592000000, as_createdAt = t0\<rparr>"
    by simp
  have own: "find (\<lambda>x. u_id x = u_id u) (users s2) = Some u'"
    using owner res by (simp add: summary_def)
  have "\<not> t0 + 2592000000 < t" using live res by simp
  then show ?thesis
    using found own res by (simp add: validateSession_def)
qed

text \<open>
  On the worked store: after alice's redemption at 500 the HR admin makes her
  \<open>MANAGER\<close> of a team, his own session is revoked and carol logs in. The session
  table is no longer the one the redemption left, alice's row in it is.
\<close>

theorem validateSession_rereads_principal_witness:
  "validateMagicLinkAndCreateSession digest0 ''r1'' ''s1'' 500 ''t1'' store0 =
     (Inr (redeemed 500), storeRedeemed 500) \<and>
   authSessions storeLater \<noteq> authSessions (storeRedeemed 500) \<and>
   find (\<lambda>a. as_tokenHash a = digest0 ''r1'') (authSessions storeLater) =
     find (\<lambda>a. as_tokenHash a = digest0 ''r1'') (authSessions (storeRedeemed 500)) \<and>
   find (\<lambda>u. u_id u = sum_id (sc_user (redeemed 500))) (users storeLater) = Some alicePromoted \<and>
   \<not> refreshExpiresAt (redeemed 500) < 600 \<and>
   validateSession digest0 600 (refreshToken (redeemed 500)) storeLater =
     (Inr \<lparr>us_id = u_id alicePromoted, us_role = u_role alicePromoted,
           us_companyId = u_companyId alicePromoted, us_teamId = u_teamId alicePromoted\<rparr>,
      storeLater)"
proof -
  have d: "authSessions storeLater \<noteq> authSessions (storeRedeemed 500)"
    by (simp add: storeLater_def storeRedeemed_def sessB_def sessA_def)
  have k: "find (\<lambda>a. as_tokenHash a = digest0 ''r1'') (authSessions storeLater) =
           find (\<lambda>a. as_tokenHash a = digest0 ''r1'') (authSessions (storeRedeemed 500))"
    by (simp add: storeLater_def storeRedeemed_def sessB_def sessA_def sessC_def digest0_def)
  have o: "find (\<lambda>u. u_id u = sum_id (sc_user (redeemed 500))) (users storeLater) = Some alicePromoted"
    by (simp add: example_defs)
  have l: "\<not> refreshExpiresAt (redeemed 500) < 600"
    by (simp add: redeemed_def)
  show ?thesis
    using validateSession_rereads_principal [OF ex_redeem k o l] ex_redeem d k o l by simp
qed

text \<open>
  The claim as stated, with the context keeping the values of the time of creation,
  fails on the worked store: alice redeems her link as \<open>COLLABORATEUR\<close> without a team,
  the HR admin then makes her \<open>MANAGER\<close> of team1, and the validation of her refresh
  token returns \<open>MANAGER\<close> and team1.
\<close>

theorem validateSession_after_update_counterexample:
  "find (\<lambda>u. u_id u = ''cjalice001'') (users store0) = Some alice \<and>
   u_role alice = COLLABORATEUR \<and> u_teamId alice = None \<and>
   validateMagicLinkAndCreateSession digest0 ''r1'' ''s1'' 500 ''t1'' store0 =
     (Inr (redeemed 500), storeRedeemed 500) \<and>
   refreshToken (redeemed 500) = ''r1'' \<and>
   updateUser ''cjalice001'' \<lparr>uu_email = None, uu_role = Some MANAGER, uu_teamId = Some (Some ''cjteam0001'')\<rparr>
      bobSession (storeRedeemed 500) = (Inr alicePromoted, storePromoted) \<and>
   validateSession digest0 600 ''r1'' storePromoted =
     (Inr \<lparr>us_id = ''cjalice001'', us_role = MANAGER, us_companyId = ''cjacme0001'', us_teamId = Some ''cjteam0001''\<rparr>,
      storePromoted)"
proof -
  have "find (\<lambda>u. u_id u = ''cjalice001'') (users store0) = Some alice"
    by (simp add: example_defs)
  then show ?thesis
    using ex_redeem ex_promote ex_validate_promoted by (simp add: alice_def redeemed_def)
qed

section \<open>Expired credentials\<close>

text \<open>
  Claim C6, as the code has it. \<open>validateSession\<close> and \<open>refreshAccessToken\<close> of a token
  whose session is past its expiry fail with \<open>EXPIRED_SESSION\<close> and
  \<open>EXPIRED_REFRESH_TOKEN\<close> and leave the store without the rows of that session's id,
  the other tables untouched. \<open>validateMagicLinkAndCreateSession\<close> of a token whose
  magic link is past its expiry fails with \<open>EXPIRED_TOKEN\<close> and leaves the store as it
  was, the expired link still in it: that failing call deletes nothing.
\<close>

theorem expired_session_deleted_expired_link_kept:
  "(find (\<lambda>a. as_tokenHash a = sha256hex r) (authSessions s) = Some a \<and> as_expiresAt a < t \<longrightarrow>
      validateSession sha256hex t r s =
        (Inl EXPIRED_SESSION, s\<lparr>authSessions := filter (\<lambda>x. as_id x \<noteq> as_id a) (authSessions s)\<rparr>) \<and>
      refreshAccessToken sha256hex t r s =
        (Inl EXPIRED_REFRESH_TOKEN, s\<lparr>authSessions := filter (\<lambda>x. as_id x \<noteq> as_id a) (authSessions s)\<rparr>) \<and>
      a \<notin> set (filter (\<lambda>x. as_id x \<noteq> as_id a) (authSessions s))) \<and>
   (find (\<lambda>l. ml_tokenHash l = sha256hex S) (magicLinks s) = Some l \<and> ml_expiresAt l < t \<longrightarrow>
      validateMagicLinkAndCreateSession sha256hex rtok sid t S s = (Inl EXPIRED_TOKEN, s) \<and>
      l \<in> set (magicLinks s))"
proof (intro conjI impI)
  assume h: "find (\<lambda>a. as_tokenHash a = sha256hex r) (authSessions s) = Some a \<and> as_expiresAt a < t"
  then show "validateSession sha256hex t r s =
        (Inl EXPIRED_SESSION, s\<lparr>authSessions := filter (\<lambda>x. as_id x \<noteq> as_id a) (authSessions s)\<rparr>)"
    by (simp add: validateSession_def deleteMany_def)
  from h show "refreshAccessToken sha256hex t r s =
        (Inl EXPIRED_REFRESH_TOKEN, s\<lparr>authSessions := filter (\<lambda>x. as_id x \<noteq> as_id a) (authSessions s)\<rparr>)"
    by (simp add: refreshAccessToken_def deleteMany_def)
  show "a \<notin> set (filter (\<lambda>x. as_id x \<noteq> as_id a) (authSessions s))"
    by simp
next
  assume h: "find (\<lambda>l. ml_tokenHash l = sha256hex S) (magicLinks s) = Some l \<and> ml_expiresAt l < t"
  then show "validateMagicLinkAndCreateSession sha256hex rtok sid t S s = (Inl EXPIRED_TOKEN, s)"
    by (simp add: validateMagicLinkAndCreateSession_def)
  from h show "l \<in> set (magicLinks s)"
    by (auto dest: find_Some_in_set)
qed

theorem expired_session_deleted_expired_link_kept_witness:
  "find (\<lambda>a. as_tokenHash a = digest0 ''rb'') (authSessions store0) = Some sessB \<and>
   as_expiresAt sessB < 3000 \<and>
   validateSession digest0 3000 ''rb'' store0 = (Inl EXPIRED_SESSION, store0\<lparr>authSessions := []\<rparr>) \<and>
   refreshAccessToken digest0 3000 ''rb'' store0 = (Inl EXPIRED_REFRESH_TOKEN, store0\<lparr>authSessions := []\<rparr>) \<and>
   find (\<lambda>l. ml_tokenHash l = digest0 ''t1'') (magicLinks store0) = Some linkA \<and>
   ml_expiresAt linkA < 3000 \<and>
   validateMagicLinkAndCreateSession digest0 ''r2'' ''s2'' 3000 ''t1'' store0 = (Inl EXPIRED_TOKEN, store0) \<and>
   linkA \<in> set (magicLinks store0)"
proof -
  have hs: "find (\<lambda>a. as_tokenHash a = digest0 ''rb'') (authSessions store0) = Some sessB \<and>
            as_expiresAt sessB < 3000"
    by (simp add: example_defs)
  have hl: "find (\<lambda>l. ml_tokenHash l = digest0 ''t1'') (magicLinks store0) = Some linkA \<and>
            ml_expiresAt linkA < 3000"
    by (simp add: example_defs)
  have rest: "filter (\<lambda>x. as_id x \<noteq> as_id sessB) (authSessions store0) = []"
    by (simp add: store0_def)
  show ?thesis
    using expired_session_deleted_expired_link_kept
            [of digest0 "''rb''" store0 sessB 3000 "''t1''" linkA "''r2''" "''s2''"]
          hs hl rest
    by simp
qed

text \<open>
  The claim as stated, with the expired magic link deleted by the failing redemption,
  fails on the worked store: redeeming alice's link at 5000, past its expiry 1000,
  fails with \<open>EXPIRED_TOKEN\<close> and returns the store unchanged, the link still in it.
\<close>

theorem expired_link_kept_counterexample:
  "find (\<lambda>l. ml_tokenHash l = digest0 ''t1'') (magicLinks store0) = Some linkA \<and>
   ml_expiresAt linkA < 5000 \<and>
   validateMagicLinkAndCreateSession digest0 ''r2'' ''s2'' 5000 ''t1'' store0 = (Inl EXPIRED_TOKEN, store0) \<and>
   linkA \<in> set (magicLinks store0)"
  by (simp add: validateMagicLinkAndCreateSession_def example_defs)

section \<open>Users: role and team\<close>




section \<open>Users: isolation by company\<close>

text \<open>
  The reads by id and by email, the update and the deletion all put the requester's
  company id into their filter, whatever the role: the row they return or write belongs
  to the requester's company, and the rows of other companies stay as they are.
\<close>

lemma userMatches_companyId:
  "userMatches w u \<Longrightarrow> w_companyId w = Some c \<Longrightarrow> u_companyId u = c"
  by (simp add: userMatches_def)

lemma find_userMatches_companyId:
  "find (userMatches w) rows = Some u \<Longrightarrow> w_companyId w = Some c \<Longrightarrow> u_companyId u = c"
  by (auto simp: find_Some_iff dest: userMatches_companyId)

lemma getUserById_same_company:
  assumes "getUserById userId requestingUser s = Some r"
  shows "u_companyId (uwc_user r) = us_companyId requestingUser"
proof -
  let ?w0 = "emptyWhere\<lparr>w_id := Some userId, w_companyId := Some (us_companyId requestingUser)\<rparr>"
  let ?w = "if us_role requestingUser = MANAGER
              then ?w0\<lparr>w_teamId := Some (us_teamId requestingUser)\<rparr>
            else if us_role requestingUser = COLLABORATEUR
              then ?w0\<lparr>w_id := Some (us_id requestingUser)\<rparr>
            else ?w0"
  from assms obtain u where
    f: "find (userMatches ?w) (users s) = Some u" and r: "uwc_user r = u"
    by (auto simp: getUserById_def Let_def includeCompany_def)
  have "w_companyId ?w = Some (us_companyId requestingUser)" by simp
  from find_userMatches_companyId [OF f this] r show ?thesis by simp
qed

lemma getUserByEmail_same_company:
  assumes "getUserByEmail email requestingUser s = Some r"
  shows "u_companyId (uwc_user r) = us_companyId requestingUser"
proof -
  let ?w0 = "emptyWhere\<lparr>w_email := Some email, w_companyId := Some (us_companyId requestingUser)\<rparr>"
  let ?w = "if us_role requestingUser = MANAGER
              then ?w0\<lparr>w_teamId := Some (us_teamId requestingUser)\<rparr>
            else if us_role requestingUser = COLLABORATEUR
              then ?w0\<lparr>w_id := Some (us_id requestingUser)\<rparr>
            else ?w0"
  from assms obtain u where
    f: "find (userMatches ?w) (users s) = Some u" and r: "uwc_user r = u"
    by (auto simp: getUserByEmail_def Let_def includeCompany_def)
  have "w_companyId ?w = Some (us_companyId requestingUser)" by simp
  from find_userMatches_companyId [OF f this] r show ?thesis by simp
qed

lemma filter_map_untouched:
  assumes "\<And>x. P x \<Longrightarrow> f x = x" and "\<And>x. \<not> P x \<Longrightarrow> \<not> P (f x)"
  shows "filter P (map f xs) = filter P xs"
  using assms by (induction xs) auto

lemma updateUser_same_company:
  assumes "updateUser userId input requestingUser s = (Inr u', s')"
  shows "u_companyId u' = us_companyId requestingUser \<and>
         filter (\<lambda>u. u_companyId u \<noteq> us_companyId requestingUser) (users s') =
         filter (\<lambda>u. u_companyId u \<noteq> us_companyId requestingUser) (users s)"
proof -
  define w where "w =
    (if us_role requestingUser = MANAGER
       then emptyWhere\<lparr>w_id := Some userId, w_companyId := Some (us_companyId requestingUser),
                       w_teamId := Some (us_teamId requestingUser)\<rparr>
     else if us_role requestingUser = COLLABORATEUR
       then emptyWhere\<lparr>w_id := Some userId, w_companyId := Some (us_companyId requestingUser),
                       w_id := Some (us_id requestingUser)\<rparr>
     else emptyWhere\<lparr>w_id := Some userId, w_companyId := Some (us_companyId requestingUser)\<rparr>)"
  define newRole where
    "newRole = (\<lambda>existingUser :: User. case uu_role input of Some r \<Rightarrow> r | None \<Rightarrow> u_role existingUser)"
  define newTeamId where
    "newTeamId = (\<lambda>existingUser :: User. case uu_teamId input of Some t \<Rightarrow> t | None \<Rightarrow> u_teamId existingUser)"
  define f where "f = (\<lambda>(existingUser :: User) (u :: User).
     u\<lparr>u_email := (case uu_email input of Some e \<Rightarrow> e | None \<Rightarrow> u_email u),
       u_role := (case uu_role input of Some r \<Rightarrow> r | None \<Rightarrow> u_role u),
       u_teamId := (if newRole existingUser = ADMIN_RH then None else newTeamId existingUser)\<rparr>)"
  have wc: "w_companyId w = Some (us_companyId requestingUser)"
    by (simp add: w_def)
  have fc: "u_companyId (f e u) = u_companyId u" for e u
    by (simp add: f_def)
  have eq: "updateUser userId input requestingUser s =
          (case find (userMatches w) (users s) of
             None \<Rightarrow> (Inl USER_NOT_FOUND, s)
           | Some existingUser \<Rightarrow>
               if newRole existingUser = MANAGER \<and> \<not> truthy (newTeamId existingUser)
                 then (Inl TEAM_ID_REQUIRED, s)
               else if newRole existingUser = ADMIN_RH \<and> truthy (newTeamId existingUser)
                 then (Inl TEAM_ID_NOT_ALLOWED, s)
               else if (case uu_email input of
                          Some e \<Rightarrow> list_ex (\<lambda>u. \<not> userMatches w u \<and> u_email u = e) (users s)
                        | None \<Rightarrow> False)
                 then (Inl USER_UPDATE_FAILED, s)
               else (Inr (f existingUser existingUser),
                     s\<lparr>users := map (\<lambda>u. if userMatches w u then f existingUser u else u) (users s)\<rparr>))"
    unfolding updateUser_def Let_def w_def f_def newRole_def newTeamId_def ..
  from assms obtain existing where
    ex: "find (userMatches w) (users s) = Some existing" and
    u': "u' = f existing existing" and
    s': "users s' = map (\<lambda>u. if userMatches w u then f existing u else u) (users s)"
    unfolding eq by (cases "find (userMatches w) (users s)") (auto split: if_splits)
  have "u_companyId u' = us_companyId requestingUser"
    using find_userMatches_companyId [OF ex wc] u' fc by simp
  moreover have "filter (\<lambda>u. u_companyId u \<noteq> us_companyId requestingUser) (users s') =
                 filter (\<lambda>u. u_companyId u \<noteq> us_companyId requestingUser) (users s)"
    unfolding s'
  proof (rule filter_map_untouched)
    fix x :: User assume "u_companyId x \<noteq> us_companyId requestingUser"
    then have "\<not> userMatches w x" using userMatches_companyId [OF _ wc] by blast
    then show "(if userMatches w x then f existing x else x) = x" by simp
  next
    fix x :: User assume "\<not> u_companyId x \<noteq> us_companyId requestingUser"
    then show "\<not> u_companyId (if userMatches w x then f existing x else x) \<noteq> us_companyId requestingUser"
      by (simp add: fc)
  qed
  ultimately show ?thesis by simp
qed

lemma deleteUser_same_company:
  assumes "deleteUser userId requestingUser s = (Inr (), s')"
  shows "filter (\<lambda>u. u_companyId u \<noteq> us_companyId requestingUser) (users s') =
         filter (\<lambda>u. u_companyId u \<noteq> us_companyId requestingUser) (users s)"
proof -
  define w where "w =
    (if us_role requestingUser = MANAGER
       then emptyWhere\<lparr>w_id := Some userId, w_companyId := Some (us_companyId requestingUser),
                       w_teamId := Some (us_teamId requestingUser)\<rparr>
     else emptyWhere\<lparr>w_id := Some userId, w_companyId := Some (us_companyId requestingUser)\<rparr>)"
  have wc: "w_companyId w = Some (us_companyId requestingUser)"
    by (simp add: w_def)
  have eq: "deleteUser userId requestingUser s =
          (if us_role requestingUser = COLLABORATEUR then (Inl UNAUTHORIZED, s)
           else case find (userMatches w) (users s) of
                  None \<Rightarrow> (Inl USER_NOT_FOUND, s)
                | Some existingUser \<Rightarrow>
                    (Inr (),
                     s\<lparr>users := deleteMany (userMatches w) (users s),
                       magicLinks := deleteMany (\<lambda>l. ml_userId l = u_id existingUser) (magicLinks s),
                       authSessions := deleteMany (\<lambda>a. as_userId a = u_id existingUser) (authSessions s)\<rparr>))"
    unfolding deleteUser_def Let_def w_def ..
  from assms have s': "users s' = filter (\<lambda>u. \<not> userMatches w u) (users s)"
    unfolding eq by (auto simp: deleteMany_def split: if_splits option.splits)
  have "\<And>u. userMatches w u \<Longrightarrow> u_companyId u = us_companyId requestingUser"
    by (rule userMatches_companyId [OF _ wc])
  then have "filter (\<lambda>u. u_companyId u \<noteq> us_companyId requestingUser)
               (filter (\<lambda>u. \<not> userMatches w u) (users s)) =
             filter (\<lambda>u. u_companyId u \<noteq> us_companyId requestingUser) (users s)"
    unfolding filter_filter by (intro filter_cong refl) blast
  then show ?thesis by (simp only: s')
qed

text \<open>
  \<open>listUsers\<close> does the same only when the query carries no company id.
\<close>

lemma listUsers_same_company_by_default:
  assumes "\<not> truthy (q_companyId query)"
      and "r \<in> set (data (listUsers query (Some requestingUser) s))"
  shows "u_companyId (uwc_user r) = us_companyId requestingUser"
proof -
  define w2 where "w2 =
    (if us_role requestingUser = MANAGER
       then emptyWhere\<lparr>w_companyId := Some (us_companyId requestingUser),
                       w_teamId := Some (us_teamId requestingUser)\<rparr>
     else emptyWhere\<lparr>w_companyId := Some (us_companyId requestingUser)\<rparr>)"
  define w3 where "w3 = (case q_role query of Some r \<Rightarrow> w2\<lparr>w_role := Some r\<rparr> | None \<Rightarrow> w2)"
  define w where "w = (if truthy (q_search query) then w3\<lparr>w_emailContains := q_search query\<rparr> else w3)"
  have wc: "w_companyId w = Some (us_companyId requestingUser)"
    by (simp add: w_def w3_def w2_def split: option.splits)
  have "data (listUsers query (Some requestingUser) s) =
          map (includeCompany s)
            (take (q_limit query) (drop ((q_page query - 1) * q_limit query)
               (sort_key (\<lambda>u. - u_createdAt u) (filter (userMatches w) (users s)))))"
    unfolding listUsers_def Let_def w_def w3_def w2_def
    by (simp only: assms(1) if_False option.case PaginatedResponse.select_convs)
  with assms(2) obtain u where
    u: "u \<in> set (filter (userMatches w) (users s))" and r: "r = includeCompany s u"
    by (auto dest!: in_set_takeD in_set_dropD)
  from u have "userMatches w u" by simp
  from userMatches_companyId [OF this wc] r show ?thesis
    by (simp add: includeCompany_def)
qed

text \<open>
  Claim C1. The rows a user operation returns or affects are to belong to the
  requester's company for every role and every query. \<open>listUsers\<close> breaks this: a
  company id in the query replaces the requester's in the filter. On the worked store
  the HR admin of acme lists with \<open>companyId = globex\<close> and is returned the row of carol,
  a user of globex.
\<close>

theorem listUsers_crosses_company:
  "us_companyId bobSession = ''cjacme0001'' \<and>
   data (listUsers \<lparr>q_page = 1, q_limit = 10, q_role = None,
                    q_companyId = Some ''cjglobex01'', q_search = None\<rparr>
                   (Some bobSession) store0)
     = [\<lparr>uwc_user = carol, uwc_company = Some globex\<rparr>] \<and>
   u_companyId carol = ''cjglobex01''"
proof -
  have found: "filter (userMatches (emptyWhere\<lparr>w_companyId := Some ''cjglobex01''\<rparr>)) (users store0) = [carol]"
    by (simp add: userMatches_def emptyWhere_def store0_def alice_def bob_def carol_def)
  have "data (listUsers \<lparr>q_page = 1, q_limit = 10, q_role = None,
                    q_companyId = Some ''cjglobex01'', q_search = None\<rparr>
                   (Some bobSession) store0)
        = map (includeCompany store0)
            (take 10 (drop 0 (sort_key (\<lambda>u. - u_createdAt u)
               (filter (userMatches (emptyWhere\<lparr>w_companyId := Some ''cjglobex01''\<rparr>)) (users store0)))))"
    by (simp add: listUsers_def truthy_def bobSession_def Let_def)
  also have "\<dots> = [\<lparr>uwc_user = carol, uwc_company = Some globex\<rparr>]"
    unfolding found
    by (simp add: includeCompany_def store0_def carol_def acme_def globex_def)
  finally show ?thesis
    by (simp add: bobSession_def carol_def)
qed

end
